theory Spec2Isabelle
  imports Complex_Main
begin

section \<open>Arrays and the Python errors the notebook can raise\<close>

text \<open>
  The notebook computes with numpy arrays of float64. The arithmetic is given in two
  readings. In the first an entry is the real number it stands for and every operation is
  the exact operation on reals, which leaves rounding, overflow, infinities and nan aside;
  the simulator, the program builder and the simulation loops are in this reading. In the
  second every operation rounds as float64 does; the plant update, the Euler step and the
  stage cost are given in both, the float64 one under the names that end in \<open>_f64\<close>.
  A one-dimensional array is a list of its entries. The constant matrices \<open>A\<close>, \<open>B\<close>, \<open>Q\<close>, \<open>R\<close> and the ones
  derived from them are lists of rows; the trajectory arrays \<open>X\<close>, \<open>U\<close>, \<open>Xtraj\<close>, which
  the code only reads and writes by column (\<open>X[:, t]\<close>), are lists of columns.
\<close>

type_synonym vec = "real list"
type_synonym mat = "real list list"
type_synonym cols = "real list list"

datatype py_error = ValueError | IndexError | TypeError | SolverError | ParameterError

text \<open>Where a float64 is kept as what it is, a finite number, an infinity or nan, it is a
  value of the following type: the value that \<open>mpc.solve\<close> returns, the entries of
  \<open>Jtraj\<close> and \<open>Utraj\<close>, and the values of the float64 reading of the arithmetic
  further down. The two zeros of float64 are not told apart.\<close>

datatype f64 = Finite real | PosInf | NegInf | NaN

text \<open>\<open>np.eye(n)\<close>, \<open>np.diag(v)\<close>, \<open>a * c\<close> for a scalar \<open>c\<close>, and \<open>a + b\<close> for two
  arrays of one shape.\<close>

definition np_eye :: "nat \<Rightarrow> mat" where
  "np_eye n = map (\<lambda>i. map (\<lambda>j. if i = j then 1 else 0) [0..<n]) [0..<n]"

definition np_diag :: "vec \<Rightarrow> mat" where
  "np_diag v = map (\<lambda>i. map (\<lambda>j. if i = j then v ! i else 0) [0..<length v]) [0..<length v]"

definition vscale :: "vec \<Rightarrow> real \<Rightarrow> vec" where
  "vscale v c = map (\<lambda>a. a * c) v"

definition mscale :: "mat \<Rightarrow> real \<Rightarrow> mat" where
  "mscale a c = map (\<lambda>row. vscale row c) a"

definition vadd :: "vec \<Rightarrow> vec \<Rightarrow> vec" where
  "vadd v w = map2 (+) v w"

definition madd :: "mat \<Rightarrow> mat \<Rightarrow> mat" where
  "madd a b = map2 vadd a b"

text \<open>\<open>np.dot\<close> of two one-dimensional arrays is their inner product, and of a matrix and
  a one-dimensional array the matrix-vector product; numpy raises ValueError when the
  shapes are not aligned.\<close>

definition inner :: "vec \<Rightarrow> vec \<Rightarrow> real" where
  "inner v w = sum_list (map2 (*) v w)"

definition ncols :: "mat \<Rightarrow> nat" where
  "ncols a = (case a of [] \<Rightarrow> 0 | row # _ \<Rightarrow> length row)"

definition matvec :: "mat \<Rightarrow> vec \<Rightarrow> vec" where
  "matvec a v = map (\<lambda>row. inner row v) a"


definition np_dot :: "mat \<Rightarrow> vec \<Rightarrow> py_error + vec" where
  "np_dot a v = (if ncols a = length v then Inr (matvec a v) else Inl ValueError)"

section \<open>The linearised cart-pole model and its discretisation\<close>

definition M :: real where "M = 1"
definition m :: real where "m = 0.1"
definition l :: real where "l = 1"
definition g :: real where "g = 9.8"

definition A :: mat where
  "A = [[0, 1, 0, 0],
        [0, 0, - m * g / M, 0],
        [0, 0, 0, 1],
        [0, 0, (m + M) * g / l / M, 0]]"

definition B :: mat where
  "B = [[0], [1 / M], [0], [- 1 / l / M]]"

definition dt :: real where "dt = 1 / 1000"

definition Q :: mat where "Q = np_diag [1, 100, 0.1, 1]"
definition R :: mat where "R = mscale (np_eye 1) 0.001"

definition dim_x :: nat where "dim_x = 4"
definition dim_u :: nat where "dim_u = 1"

definition Ad :: mat where "Ad = madd (np_eye dim_x) (mscale A dt)"
definition Bd :: mat where "Bd = mscale B dt"
definition Qd :: mat where "Qd = mscale Q dt"
definition Rd :: mat where "Rd = mscale R dt"

text \<open>\<open>def xdot(x,u): return np.dot(A,x)+np.dot(B,u)\<close>\<close>

definition xdot :: "vec \<Rightarrow> vec \<Rightarrow> py_error + vec" where
  "xdot x u =
     (case np_dot A x of Inl e \<Rightarrow> Inl e
      | Inr ax \<Rightarrow> (case np_dot B u of Inl e \<Rightarrow> Inl e
                  | Inr bu \<Rightarrow> Inr (vadd ax bu)))"

text \<open>The Euler integrator step \<open>x + xdot(x,u)*dt\<close> of both simulators, and the plant
  update \<open>Ad.dot(x) + Bd.dot(u)\<close> of the MPC loops, in the exact reading: the sums and
  products are those of the real numbers.\<close>

definition euler_step :: "vec \<Rightarrow> vec \<Rightarrow> real \<Rightarrow> py_error + vec" where
  "euler_step x u h =
     (case xdot x u of Inl e \<Rightarrow> Inl e | Inr d \<Rightarrow> Inr (vadd x (vscale d h)))"

definition plant_update :: "vec \<Rightarrow> vec \<Rightarrow> py_error + vec" where
  "plant_update x u =
     (case np_dot Ad x of Inl e \<Rightarrow> Inl e
      | Inr ax \<Rightarrow> (case np_dot Bd u of Inl e \<Rightarrow> Inl e
                  | Inr bu \<Rightarrow> Inr (vadd ax bu)))"


section \<open>Loops\<close>

text \<open>\<open>for t in range(steps): body\<close> runs the body on \<open>[0..<steps]\<close> in order; an
  exception raised by the body ends the loop and is the loop's outcome.\<close>

fun for_loop :: "(nat \<Rightarrow> 'st \<Rightarrow> 'e + 'st) \<Rightarrow> nat list \<Rightarrow> 'st \<Rightarrow> 'e + 'st" where
  "for_loop body [] s = Inr s"
| "for_loop body (t # ts) s =
     (case body t s of Inl e \<Rightarrow> Inl e | Inr s' \<Rightarrow> for_loop body ts s')"

text \<open>\<open>np.empty\<close> allocates without initialising: the entries are whatever the memory
  holds, here an arbitrary function of the position.\<close>

definition np_empty :: "(nat \<Rightarrow> nat \<Rightarrow> real) \<Rightarrow> nat \<Rightarrow> nat \<Rightarrow> cols" where
  "np_empty junk r c = map (\<lambda>j. map (\<lambda>i. junk i j) [0..<r]) [0..<c]"

definition np_empty1 :: "(nat \<Rightarrow> 'a) \<Rightarrow> nat \<Rightarrow> 'a list" where
  "np_empty1 junk n = map junk [0..<n]"

text \<open>\<open>U[:, t]\<close> on a two-dimensional array raises IndexError past the last column.\<close>

definition get_col :: "cols \<Rightarrow> nat \<Rightarrow> py_error + vec" where
  "get_col a t = (if t < length a then Inr (a ! t) else Inl IndexError)"

section \<open>The open-loop simulator\<close>

text \<open>
  \<^verbatim>\<open>
  def integrateOpenLoop(x0, U, steps, dt=1e-3):
      X = np.empty([x0.size, steps+1])
      X[:,0]=x0
      for t in range(steps):
          x = X[:, t]               #current state
          u = U[:, t]               #current control
          xnext = x + xdot(x,u)*dt  #Euler integrator
          X[:, t+1] = xnext
      return X
  \<close>
  The function's variables are kept in a record, so that what it assigns to is visible:
  the arguments \<open>x0\<close> and \<open>U\<close> and the array \<open>X\<close> it allocates. \<open>x\<close> and \<open>u\<close> are
  views that are only read. \<open>X\<close> has \<open>steps + 1\<close> columns of \<open>x0.size\<close> entries, so both
  column assignments are in range, and \<open>xnext\<close> has the size of \<open>x\<close> whenever \<open>xdot\<close>
  returns; they are list updates.
\<close>

record ol_env =
  v_x0 :: vec
  v_U :: cols
  v_X :: cols

definition ol_body :: "real \<Rightarrow> nat \<Rightarrow> ol_env \<Rightarrow> py_error + ol_env" where
  "ol_body h t s =
     (let x = v_X s ! t in
      case get_col (v_U s) t of Inl e \<Rightarrow> Inl e
      | Inr u \<Rightarrow> (case euler_step x u h of Inl e \<Rightarrow> Inl e
                 | Inr xnext \<Rightarrow> Inr (s\<lparr>v_X := (v_X s)[Suc t := xnext]\<rparr>)))"

definition integrateOpenLoop ::
    "(nat \<Rightarrow> nat \<Rightarrow> real) \<Rightarrow> vec \<Rightarrow> cols \<Rightarrow> nat \<Rightarrow> real \<Rightarrow> py_error + ol_env" where
  "integrateOpenLoop junk x0 U steps h =
     for_loop (ol_body h) [0..<steps]
       \<lparr>v_x0 = x0, v_U = U, v_X = (np_empty junk (length x0) (steps + 1))[0 := x0]\<rparr>"

section \<open>The quadratic program\<close>

text \<open>
  A cvxpy problem is kept by what it denotes: the shapes of its variables
  \<open>U = Variable((dim_u, N))\<close> and \<open>X = Variable((dim_x, N+1))\<close>, its objective and its
  constraints. The objective is a function of the values of \<open>X\<close> and \<open>U\<close>, each a list
  of columns; a constraint is a predicate on the value of the parameter
  \<open>x_init = Parameter(dim_x)\<close> and the values of \<open>X\<close> and \<open>U\<close>.
\<close>

type_synonym expr = "cols \<Rightarrow> cols \<Rightarrow> real"
type_synonym constr = "vec \<Rightarrow> cols \<Rightarrow> cols \<Rightarrow> bool"

record problem =
  U_shape :: "nat \<times> nat"
  X_shape :: "nat \<times> nat"
  objective :: expr
  constraints :: "constr list"

definition quad_form :: "vec \<Rightarrow> mat \<Rightarrow> real" where
  "quad_form v w = inner v (matvec w v)"

text \<open>\<open>X[:,0] == x_init\<close> and \<open>X[:,k+1] == Ad@X[:,k] + Bd@U[:,k]\<close>\<close>

definition init_constraint :: constr where
  "init_constraint xi X U = (X ! 0 = xi)"

definition dynamics_constraint :: "nat \<Rightarrow> constr" where
  "dynamics_constraint k xi X U = (X ! Suc k = vadd (matvec Ad (X ! k)) (matvec Bd (U ! k)))"

text \<open>
  The cell that builds the input-constrained program:
  \<^verbatim>\<open>
  N=100
  U = Variable((dim_u, N))
  X = Variable((dim_x, N+1))
  x_init = Parameter(dim_x)
  objective = 0
  constraints = [X[:,0] == x_init]
  for k in range(N):
      objective += quad_form(X[:,k], Qd) + quad_form(U[:,k], Rd)
      constraints += [X[:,k+1] == Ad@X[:,k] + Bd@U[:,k]]
      constraints += #TODO: complete me
  objective+=quad_form(X[:,N], P)
  mpc = Problem(Minimize(objective), constraints)
  \<close>
  The right-hand side after \<open>constraints +=\<close> is left blank in the notebook: \<open>todo k\<close> is
  the list of constraints put there for step \<open>k\<close>. \<open>P\<close> is the matrix returned by
  \<open>scipy.linalg.solve_continuous_are(A, B, Q, R)\<close>, a parameter here. The horizon is
  the notebook's global \<open>N\<close>, the argument \<open>n\<close>.
\<close>

definition build_body :: "(nat \<Rightarrow> constr list) \<Rightarrow> nat \<Rightarrow> problem \<Rightarrow> problem" where
  "build_body todo k s =
     s\<lparr>objective := (\<lambda>X U. objective s X U + (quad_form (X ! k) Qd + quad_form (U ! k) Rd)),
       constraints := (constraints s @ [dynamics_constraint k]) @ todo k\<rparr>"

definition build_mpc :: "nat \<Rightarrow> mat \<Rightarrow> (nat \<Rightarrow> constr list) \<Rightarrow> problem" where
  "build_mpc n Pm todo =
     (let s = fold (build_body todo) [0..<n]
                \<lparr>U_shape = (dim_u, n), X_shape = (dim_x, n + 1),
                 objective = (\<lambda>X U. 0), constraints = [init_constraint]\<rparr>
      in s\<lparr>objective := (\<lambda>X U. objective s X U + quad_form (X ! n) Pm)\<rparr>)"

text \<open>
  The cell that builds the program with the terminal cost declares the same variables
  and has the same loop without the blank for further constraints, and leaves the
  terminal term blank instead:
  \<^verbatim>\<open>
  for k in range(N):
      objective += quad_form(X[:,k], Qd) + quad_form(U[:,k], Rd)
      constraints += [X[:,k+1] == Ad@X[:,k] + Bd@U[:,k]]
  objective+=                                            #TODO: complete me
  mpc = Problem(Minimize(objective), constraints)
  \<close>
  \<open>todo_cost\<close> is the expression put there.
\<close>

definition build_body_terminal :: "nat \<Rightarrow> problem \<Rightarrow> problem" where
  "build_body_terminal k s =
     s\<lparr>objective := (\<lambda>X U. objective s X U + (quad_form (X ! k) Qd + quad_form (U ! k) Rd)),
       constraints := constraints s @ [dynamics_constraint k]\<rparr>"

definition build_mpc_terminal :: "nat \<Rightarrow> expr \<Rightarrow> problem" where
  "build_mpc_terminal n todo_cost =
     (let s = fold build_body_terminal [0..<n]
                \<lparr>U_shape = (dim_u, n), X_shape = (dim_x, n + 1),
                 objective = (\<lambda>X U. 0), constraints = [init_constraint]\<rparr>
      in s\<lparr>objective := (\<lambda>X U. objective s X U + todo_cost X U)\<rparr>)"

definition N :: nat where "N = 100"

text \<open>Modelled from the spec: the notebook leaves the input constraint of the cell blank
  (\<open>constraints += #TODO: complete me\<close>), and the spec names an elementwise bound on
  \<open>u\<close> as what belongs there. \<open>input_bound umax k\<close> is the list with the one constraint
  \<open>|U[:,k]| <= umax\<close>.\<close>

definition input_bound :: "real \<Rightarrow> nat \<Rightarrow> constr list" where
  "input_bound umax k = [\<lambda>xi X U. list_all (\<lambda>a. \<bar>a\<bar> \<le> umax) (U ! k)]"

text \<open>A value of the variables is feasible when every constraint of the list holds.\<close>

definition feasible :: "problem \<Rightarrow> vec \<Rightarrow> cols \<Rightarrow> cols \<Rightarrow> bool" where
  "feasible p xi X U = list_all (\<lambda>c. c xi X U) (constraints p)"

section \<open>The receding-horizon simulation loops\<close>

text \<open>
  \<open>mpc.solve(solver=OSQP, warm_start=...)\<close> is cvxpy's and OSQP's code, not the
  notebook's: it is a parameter. It reads the problem, the value of \<open>x_init\<close>, the
  \<open>warm_start\<close> flag and what the problem object has cached from earlier solves; it either
  raises, or returns the optimal value (a float, \<open>inf\<close> or \<open>-inf\<close> for an infeasible or
  unbounded problem), leaves the value of \<open>U\<close> (\<open>None\<close> when there is no solution) and
  the new cache. It raises ParameterError when \<open>x_init\<close> has no value.
\<close>

type_synonym 'c solver =
  "problem \<Rightarrow> vec \<Rightarrow> bool \<Rightarrow> 'c \<Rightarrow> py_error + (f64 \<times> cols option \<times> 'c)"

text \<open>The notebook's globals that the loops use. \<open>g_mpc\<close>, \<open>g_x_init_value\<close>,
  \<open>g_U_value\<close> and \<open>g_cache\<close> are the state of the cvxpy objects \<open>mpc\<close>, \<open>x_init\<close>
  and \<open>U\<close>; the others are the numpy arrays \<open>x\<close>, \<open>Xtraj\<close>, \<open>Utraj\<close>, \<open>Jtraj\<close>.\<close>

record 'c mpc_env =
  g_mpc :: problem
  g_x_init_value :: "vec option"
  g_U_value :: "cols option"
  g_cache :: 'c
  g_x :: vec
  g_Xtraj :: cols
  g_Utraj :: "f64 list"
  g_Jtraj :: "f64 list"

text \<open>\<open>x_init.value = x\<close>: cvxpy checks the value against the parameter's shape
  \<open>(dim_x,)\<close> and raises ValueError when it differs.\<close>

definition set_x_init :: "'c mpc_env \<Rightarrow> py_error + 'c mpc_env" where
  "set_x_init s =
     (if length (g_x s) = dim_x then Inr (s\<lparr>g_x_init_value := Some (g_x s)\<rparr>)
      else Inl ValueError)"

text \<open>\<open>Jtraj[t]=mpc.solve(solver=OSQP, warm_start=ws)\<close>\<close>

definition call_solve :: "'c solver \<Rightarrow> bool \<Rightarrow> nat \<Rightarrow> 'c mpc_env \<Rightarrow> py_error + 'c mpc_env" where
  "call_solve solve ws t s =
     (case g_x_init_value s of None \<Rightarrow> Inl ParameterError
      | Some xi \<Rightarrow>
         (case solve (g_mpc s) xi ws (g_cache s) of Inl e \<Rightarrow> Inl e
          | Inr (J, Uv, c) \<Rightarrow>
              Inr (s\<lparr>g_U_value := Uv, g_cache := c, g_Jtraj := (g_Jtraj s)[t := J]\<rparr>)))"

text \<open>\<open>U[:,0].value\<close> is \<open>None\<close> when \<open>U\<close> has no value, and the first column of the
  value otherwise.\<close>

definition first_control :: "'c mpc_env \<Rightarrow> py_error + vec option" where
  "first_control s =
     (case g_U_value s of None \<Rightarrow> Inr None
      | Some Uv \<Rightarrow> (case get_col Uv 0 of Inl e \<Rightarrow> Inl e | Inr u \<Rightarrow> Inr (Some u)))"

text \<open>\<open>Utraj[t] = U[:,0].value\<close> stores into an entry of a float array: numpy stores
  nan for \<open>None\<close> and raises nothing; it stores the entry of an array of size one (the
  numpy of the notebook's Python 3.9 kernel converts it; numpy from 2.4 on raises
  TypeError instead), and raises ValueError for an array of another size.\<close>

definition store_control :: "nat \<Rightarrow> 'c mpc_env \<Rightarrow> py_error + 'c mpc_env" where
  "store_control t s =
     (case first_control s of Inl e \<Rightarrow> Inl e
      | Inr None \<Rightarrow> Inr (s\<lparr>g_Utraj := (g_Utraj s)[t := NaN]\<rparr>)
      | Inr (Some u) \<Rightarrow>
          (case u of [v] \<Rightarrow> Inr (s\<lparr>g_Utraj := (g_Utraj s)[t := Finite v]\<rparr>)
           | _ \<Rightarrow> Inl ValueError))"

text \<open>\<open>x = Ad.dot(x) + Bd.dot(U[:,0].value)\<close>, in Python's order of evaluation:
  \<open>Ad.dot(x)\<close>, then \<open>U[:,0].value\<close>, then \<open>Bd.dot\<close> of it, which raises TypeError
  for \<open>None\<close>, then the sum. With a value \<open>u\<close> of \<open>U[:,0]\<close> this is
  \<open>plant_update x u\<close>.\<close>

definition apply_control :: "'c mpc_env \<Rightarrow> py_error + 'c mpc_env" where
  "apply_control s =
     (case np_dot Ad (g_x s) of Inl e \<Rightarrow> Inl e
      | Inr ax \<Rightarrow>
          (case first_control s of Inl e \<Rightarrow> Inl e
           | Inr None \<Rightarrow> Inl TypeError
           | Inr (Some u) \<Rightarrow>
               (case np_dot Bd u of Inl e \<Rightarrow> Inl e
                | Inr bu \<Rightarrow> Inr (s\<lparr>g_x := vadd ax bu\<rparr>))))"

text \<open>\<open>Xtraj[:,t] = x\<close>. The loops allocate \<open>Xtraj\<close>, \<open>Utraj\<close> and \<open>Jtraj\<close> with
  \<open>steps\<close> entries (columns of \<open>x0.size\<close> entries for \<open>Xtraj\<close>) and run \<open>t\<close> over
  \<open>range(steps)\<close>, so the three assignments by index are in range and are list updates;
  on shorter arrays, which the cells do not produce, numpy would raise IndexError.\<close>

definition store_state :: "nat \<Rightarrow> 'c mpc_env \<Rightarrow> 'c mpc_env" where
  "store_state t s = s\<lparr>g_Xtraj := (g_Xtraj s)[t := g_x s]\<rparr>"

text \<open>An exception leaves the globals as they are when it is raised: the outcome of a
  failed iteration is the exception with that state.\<close>

definition attempt ::
    "('st \<Rightarrow> py_error + 'st) \<Rightarrow> (py_error \<times> 'st) + 'st \<Rightarrow> (py_error \<times> 'st) + 'st" where
  "attempt f r =
     (case r of Inl es \<Rightarrow> Inl es
      | Inr s \<Rightarrow> (case f s of Inl e \<Rightarrow> Inl (e, s) | Inr s' \<Rightarrow> Inr s'))"

text \<open>
  The loop over the input-constrained program:
  \<^verbatim>\<open>
  for t in range(steps):
      x_init.value = x
      Jtraj[t]=mpc.solve(solver=OSQP, warm_start=True)
      Xtraj[:,t] = x;
      Utraj[t] = U[:,0].value;
      x = Ad.dot(x) + Bd.dot(U[:,0].value)
  \<close>
\<close>

definition mpc_body_constrained ::
    "'c solver \<Rightarrow> nat \<Rightarrow> 'c mpc_env \<Rightarrow> (py_error \<times> 'c mpc_env) + 'c mpc_env" where
  "mpc_body_constrained solve t s =
     attempt apply_control
       (attempt (store_control t)
         (attempt (\<lambda>s. Inr (store_state t s))
           (attempt (call_solve solve True t)
             (attempt set_x_init (Inr s)))))"


text \<open>
  The cells around the loops: \<open>x0 = np.array([1,0,-1e-3,0])\<close>, \<open>steps = 1000\<close>,
  \<open>Xtraj = np.empty([x0.size, steps])\<close>, \<open>Utraj = np.empty(steps)\<close>,
  \<open>Jtraj = np.empty(steps)\<close>, \<open>x=x0\<close>. The problem and its cache come from the cell that
  built \<open>mpc\<close>; \<open>x_init\<close> and \<open>U\<close> have no value yet.
\<close>

definition mpc_start ::
    "problem \<Rightarrow> 'c \<Rightarrow> (nat \<Rightarrow> nat \<Rightarrow> real) \<Rightarrow> (nat \<Rightarrow> f64) \<Rightarrow> (nat \<Rightarrow> f64) \<Rightarrow> vec \<Rightarrow> nat
       \<Rightarrow> 'c mpc_env" where
  "mpc_start p c junkX junkU junkJ x0 steps =
     \<lparr>g_mpc = p, g_x_init_value = None, g_U_value = None, g_cache = c, g_x = x0,
      g_Xtraj = np_empty junkX (length x0) steps, g_Utraj = np_empty1 junkU steps,
      g_Jtraj = np_empty1 junkJ steps\<rparr>"

definition mpc_x0 :: vec where "mpc_x0 = [1, 0, - (1 / 1000), 0]"
definition mpc_steps :: nat where "mpc_steps = 1000"

definition mpc_loop_constrained ::
    "'c solver \<Rightarrow> nat \<Rightarrow> 'c mpc_env \<Rightarrow> (py_error \<times> 'c mpc_env) + 'c mpc_env" where
  "mpc_loop_constrained solve steps s = for_loop (mpc_body_constrained solve) [0..<steps] s"


text \<open>The globals once the cell of a loop has run, whether it finished or raised, and
  the exception if it raised.\<close>

definition final_env :: "(py_error \<times> 'c mpc_env) + 'c mpc_env \<Rightarrow> 'c mpc_env" where
  "final_env r = (case r of Inl (e, s) \<Rightarrow> s | Inr s \<Rightarrow> s)"





text \<open>Solvers and globals to run the loops on: a solver that reports the plan
  \<open>U = [[2, 5]]\<close> with value 3, one that reports an infeasible problem (value \<open>inf\<close>,
  no value for \<open>U\<close>), one that raises; a terminal weight, and values of \<open>U\<close> and
  \<open>X\<close> for a horizon of 2 that follow the dynamics from the zero state; and the globals
  at the start of a loop of two steps over a program of horizon 2 with no further
  constraints and a zero terminal weight.\<close>

definition demo_solve :: "unit solver" where
  "demo_solve p xi ws c = Inr (Finite 3, Some [[2], [5]], c)"

definition infeasible_solve :: "unit solver" where
  "infeasible_solve p xi ws c = Inr (PosInf, None, c)"




definition demo_P :: mat where
  "demo_P = [[1, 0, 0, 0], [0, 1, 0, 0], [0, 0, 1, 0], [0, 0, 0, 1]]"

definition demo_U :: cols where "demo_U = [[1], [0]]"

definition demo_X :: cols where
  "demo_X = [[0, 0, 0, 0], [0, 1 / 1000, 0, - 1 / 1000],
             [1 / 1000000, 1 / 1000, - 1 / 1000000, - 1 / 1000]]"

definition demo_env :: "unit mpc_env" where
  "demo_env =
     mpc_start (build_mpc 2 (replicate 4 (replicate 4 0)) (\<lambda>k. [])) ()
       (\<lambda>i j. 7) (\<lambda>i. Finite 7) (\<lambda>i. Finite 7) mpc_x0 2"

section \<open>The arithmetic as float64 computes it\<close>

text \<open>
  The float64 reading of the arithmetic: every operation returns the exact result rounded
  to the nearest float64, ties to the even significand (IEEE 754 binary64, the arithmetic of
  Python floats and numpy float64 arrays). \<open>round64 r\<close> is that float64 for a real \<open>r\<close>:
  \<open>r\<close> is scaled by a power of two, \<open>s = r / 2^e\<close>, until \<open>2^52 \<le> |s| < 2^53\<close>
  (a significand of 53 bits) or the exponent is the least one, \<open>e = -1074\<close> (the
  subnormal numbers); the result is \<open>s\<close> rounded to an integer, times \<open>2^e\<close>. Beyond
  the largest float64 by half a unit in the last place or more, that is from
  \<open>2^1024 - 2^970\<close> on, the result is an infinity. The search for the exponent starts at
  \<open>e = 0\<close> and moves by one per step: below the infinities it ends within 1074 steps, and
  1100 are allowed. A value \<open>Finite r\<close> stands for a float64 when \<open>r\<close> is one; the
  operations return such values whatever they are given.
\<close>

definition rne :: "real \<Rightarrow> int" where
  "rne s = (let f = \<lfloor>s\<rfloor>; d = s - of_int f in
            if d < 1 / 2 then f else if 1 / 2 < d then f + 1
            else if even f then f else f + 1)"

fun scale :: "nat \<Rightarrow> real \<Rightarrow> int \<Rightarrow> real \<times> int" where
  "scale 0 s e = (s, e)"
| "scale (Suc n) s e =
     (if 2 ^ 53 \<le> \<bar>s\<bar> then scale n (s / 2) (e + 1)
      else if \<bar>s\<bar> < 2 ^ 52 \<and> - 1074 < e then scale n (s * 2) (e - 1)
      else (s, e))"

definition round64 :: "real \<Rightarrow> f64" where
  "round64 r =
     (if 2 ^ 1024 - 2 ^ 970 \<le> r then PosInf
      else if r \<le> - (2 ^ 1024 - 2 ^ 970) then NegInf
      else (case scale 1100 r 0 of (s, e) \<Rightarrow> Finite (of_int (rne s) * 2 powi e)))"

text \<open>Product, sum, negation and quotient of float64 values. Python raises
  ZeroDivisionError for a zero divisor; the only divisors in the notebook are the
  constants \<open>M = 1\<close> and \<open>l = 1\<close>.\<close>

fun fmul :: "f64 \<Rightarrow> f64 \<Rightarrow> f64" where
  "fmul (Finite a) (Finite b) = round64 (a * b)"
| "fmul NaN y = NaN"
| "fmul x NaN = NaN"
| "fmul (Finite a) PosInf = (if a = 0 then NaN else if 0 < a then PosInf else NegInf)"
| "fmul (Finite a) NegInf = (if a = 0 then NaN else if 0 < a then NegInf else PosInf)"
| "fmul PosInf (Finite b) = (if b = 0 then NaN else if 0 < b then PosInf else NegInf)"
| "fmul NegInf (Finite b) = (if b = 0 then NaN else if 0 < b then NegInf else PosInf)"
| "fmul PosInf PosInf = PosInf"
| "fmul NegInf NegInf = PosInf"
| "fmul PosInf NegInf = NegInf"
| "fmul NegInf PosInf = NegInf"

fun fadd :: "f64 \<Rightarrow> f64 \<Rightarrow> f64" where
  "fadd (Finite a) (Finite b) = round64 (a + b)"
| "fadd NaN y = NaN"
| "fadd x NaN = NaN"
| "fadd PosInf NegInf = NaN"
| "fadd NegInf PosInf = NaN"
| "fadd PosInf y = PosInf"
| "fadd x PosInf = PosInf"
| "fadd NegInf y = NegInf"
| "fadd x NegInf = NegInf"

fun fneg :: "f64 \<Rightarrow> f64" where
  "fneg (Finite a) = Finite (- a)"
| "fneg PosInf = NegInf"
| "fneg NegInf = PosInf"
| "fneg NaN = NaN"

fun fdiv :: "f64 \<Rightarrow> f64 \<Rightarrow> f64" where
  "fdiv (Finite a) (Finite b) = (if b = 0 then NaN else round64 (a / b))"
| "fdiv NaN y = NaN"
| "fdiv x NaN = NaN"
| "fdiv (Finite a) y = Finite 0"
| "fdiv PosInf (Finite b) = (if 0 \<le> b then PosInf else NegInf)"
| "fdiv NegInf (Finite b) = (if 0 \<le> b then NegInf else PosInf)"
| "fdiv x y = NaN"

text \<open>The arrays of float64 and the operations of numpy on them. \<open>np.dot\<close> adds the
  products up from the left, starting from zero; the order matters to the rounding only
  where more than one product is not zero.\<close>

type_synonym fvec = "f64 list"
type_synonym fmat = "f64 list list"

definition np_eye_f64 :: "nat \<Rightarrow> fmat" where
  "np_eye_f64 n = map (\<lambda>i. map (\<lambda>j. if i = j then Finite 1 else Finite 0) [0..<n]) [0..<n]"


definition vscale_f64 :: "fvec \<Rightarrow> f64 \<Rightarrow> fvec" where
  "vscale_f64 v c = map (\<lambda>a. fmul a c) v"

definition mscale_f64 :: "fmat \<Rightarrow> f64 \<Rightarrow> fmat" where
  "mscale_f64 a c = map (\<lambda>row. vscale_f64 row c) a"

definition vadd_f64 :: "fvec \<Rightarrow> fvec \<Rightarrow> fvec" where
  "vadd_f64 v w = map2 fadd v w"

definition madd_f64 :: "fmat \<Rightarrow> fmat \<Rightarrow> fmat" where
  "madd_f64 a b = map2 vadd_f64 a b"

definition inner_f64 :: "fvec \<Rightarrow> fvec \<Rightarrow> f64" where
  "inner_f64 v w = foldl fadd (Finite 0) (map2 fmul v w)"

definition matvec_f64 :: "fmat \<Rightarrow> fvec \<Rightarrow> fvec" where
  "matvec_f64 a v = map (\<lambda>row. inner_f64 row v) a"

definition np_dot_vv_f64 :: "fvec \<Rightarrow> fvec \<Rightarrow> py_error + f64" where
  "np_dot_vv_f64 v w = (if length v = length w then Inr (inner_f64 v w) else Inl ValueError)"

definition np_dot_f64 :: "fmat \<Rightarrow> fvec \<Rightarrow> py_error + fvec" where
  "np_dot_f64 a v =
     (if (case a of [] \<Rightarrow> 0 | row # _ \<Rightarrow> length row) = length v then Inr (matvec_f64 a v)
      else Inl ValueError)"

text \<open>The constants of the notebook as float64: a decimal literal is the float64 nearest
  to it, an integer is itself.\<close>

definition M_f64 :: f64 where "M_f64 = Finite 1"
definition m_f64 :: f64 where "m_f64 = round64 0.1"
definition l_f64 :: f64 where "l_f64 = Finite 1"
definition g_f64 :: f64 where "g_f64 = round64 9.8"

definition A_f64 :: fmat where
  "A_f64 = [[Finite 0, Finite 1, Finite 0, Finite 0],
            [Finite 0, Finite 0, fdiv (fmul (fneg m_f64) g_f64) M_f64, Finite 0],
            [Finite 0, Finite 0, Finite 0, Finite 1],
            [Finite 0, Finite 0, fdiv (fdiv (fmul (fadd m_f64 M_f64) g_f64) l_f64) M_f64,
             Finite 0]]"

definition B_f64 :: fmat where
  "B_f64 = [[Finite 0], [fdiv (Finite 1) M_f64], [Finite 0],
            [fdiv (fdiv (fneg (Finite 1)) l_f64) M_f64]]"

definition dt_f64 :: f64 where "dt_f64 = round64 (1 / 1000)"



definition Ad_f64 :: fmat where
  "Ad_f64 = madd_f64 (np_eye_f64 dim_x) (mscale_f64 A_f64 dt_f64)"

definition Bd_f64 :: fmat where "Bd_f64 = mscale_f64 B_f64 dt_f64"

text \<open>\<open>xdot\<close>, the Euler step \<open>x + xdot(x,u)*dt\<close>, the plant update
  \<open>Ad.dot(x) + Bd.dot(u)\<close> and the stage cost of line 301, as float64 computes them.\<close>

definition xdot_f64 :: "fvec \<Rightarrow> fvec \<Rightarrow> py_error + fvec" where
  "xdot_f64 x u =
     (case np_dot_f64 A_f64 x of Inl e \<Rightarrow> Inl e
      | Inr ax \<Rightarrow> (case np_dot_f64 B_f64 u of Inl e \<Rightarrow> Inl e
                  | Inr bu \<Rightarrow> Inr (vadd_f64 ax bu)))"

definition euler_step_f64 :: "fvec \<Rightarrow> fvec \<Rightarrow> f64 \<Rightarrow> py_error + fvec" where
  "euler_step_f64 x u h =
     (case xdot_f64 x u of Inl e \<Rightarrow> Inl e
      | Inr d \<Rightarrow> Inr (vadd_f64 x (vscale_f64 d h)))"

definition plant_update_f64 :: "fvec \<Rightarrow> fvec \<Rightarrow> py_error + fvec" where
  "plant_update_f64 x u =
     (case np_dot_f64 Ad_f64 x of Inl e \<Rightarrow> Inl e
      | Inr ax \<Rightarrow> (case np_dot_f64 Bd_f64 u of Inl e \<Rightarrow> Inl e
                  | Inr bu \<Rightarrow> Inr (vadd_f64 ax bu)))"



text \<open>The float64 values that are not below zero, and those that are not above zero; nan,
  which compares with nothing, is in both classes, and so is zero.\<close>

definition not_neg :: "f64 \<Rightarrow> bool" where
  "not_neg c = (case c of Finite v \<Rightarrow> 0 \<le> v | PosInf \<Rightarrow> True | NegInf \<Rightarrow> False | NaN \<Rightarrow> True)"

definition not_pos :: "f64 \<Rightarrow> bool" where
  "not_pos c = (case c of Finite v \<Rightarrow> v \<le> 0 | PosInf \<Rightarrow> False | NegInf \<Rightarrow> True | NaN \<Rightarrow> True)"

section \<open>Values of the constant matrices\<close>

lemma A_val: "A = [[0, 1, 0, 0], [0, 0, - 98 / 100, 0], [0, 0, 0, 1], [0, 0, 1078 / 100, 0]]"
  by (simp add: A_def m_def g_def M_def l_def)

lemma B_val: "B = [[0], [1], [0], [- 1]]"
  by (simp add: B_def M_def l_def)

lemma Ad_val:
  "Ad = [[1, 1 / 1000, 0, 0], [0, 1, - 98 / 100000, 0],
         [0, 0, 1, 1 / 1000], [0, 0, 1078 / 100000, 1]]"
  by (simp add: Ad_def A_val np_eye_def madd_def mscale_def vscale_def vadd_def dim_x_def
      dt_def upt_rec)

lemma Bd_val: "Bd = [[0], [1 / 1000], [0], [- 1 / 1000]]"
  by (simp add: Bd_def B_val mscale_def vscale_def dt_def)

lemma Q_val: "Q = [[1, 0, 0, 0], [0, 100, 0, 0], [0, 0, 1 / 10, 0], [0, 0, 0, 1]]"
  by (simp add: Q_def np_diag_def upt_rec)

lemma R_val: "R = [[1 / 1000]]"
  by (simp add: R_def np_eye_def mscale_def vscale_def)

lemma Qd_val:
  "Qd = [[1 / 1000, 0, 0, 0], [0, 1 / 10, 0, 0], [0, 0, 1 / 10000, 0], [0, 0, 0, 1 / 1000]]"
  by (simp add: Qd_def Q_val mscale_def vscale_def dt_def)

lemma Rd_val: "Rd = [[1 / 1000000]]"
  by (simp add: Rd_def R_val mscale_def vscale_def dt_def)

lemma length_4_cases: "length (x :: 'a list) = 4 \<Longrightarrow> \<exists>a b c d. x = [a, b, c, d]"
  by (auto simp: length_Suc_conv eval_nat_numeral)

lemma length_1_cases: "length (x :: 'a list) = 1 \<Longrightarrow> \<exists>a. x = [a]"
  by (auto simp: length_Suc_conv)

lemma all_less_4: "(\<forall>i<4::nat. P i) \<longleftrightarrow> P 0 \<and> P 1 \<and> P 2 \<and> P 3"
  by (auto simp: eval_nat_numeral less_Suc_eq)

section \<open>Rounding to float64 at a known exponent\<close>

text \<open>When the exponent is known, the search of \<open>round64\<close> need not be run: if
  \<open>r * 2^d\<close> has a significand of 53 bits, or \<open>d\<close> is the largest shift 1074, then
  \<open>round64 r\<close> is \<open>r * 2^d\<close> rounded to an integer, over \<open>2^d\<close>.\<close>

lemmas fmat_defs = np_eye_f64_def mscale_f64_def vscale_f64_def madd_f64_def vadd_f64_def
  np_dot_f64_def np_dot_vv_f64_def matvec_f64_def inner_f64_def

lemma scale_down:
  assumes "\<bar>t\<bar> < 2 ^ 53" and "2 ^ 52 \<le> \<bar>t\<bar> \<or> k = - 1074" and "- 1074 \<le> k" and "d \<le> n"
  shows "scale n (t / 2 ^ d) (k + int d) = (t, k)"
  using assms(4)
proof (induction d arbitrary: n)
  case 0
  show ?case using assms(1,2) by (cases n) auto
next
  case (Suc d)
  then obtain n' where n: "n = Suc n'" and d: "d \<le> n'" by (cases n) auto
  have lt: "\<bar>t / 2 ^ Suc d\<bar> < 2 ^ 52"
  proof -
    have "\<bar>t / 2 ^ Suc d\<bar> = \<bar>t\<bar> / 2 ^ Suc d" by simp
    also have "\<dots> \<le> \<bar>t\<bar> / 2"
    proof -
      have "(2::real) ^ 1 \<le> 2 ^ Suc d" by (rule power_increasing) auto
      thus ?thesis by (intro divide_left_mono) auto
    qed
    also have "\<dots> < 2 ^ 52" using assms(1) by simp
    finally show ?thesis .
  qed
  have k: "- 1074 < k + int (Suc d)" using assms(3) by simp
  have "scale n (t / 2 ^ Suc d) (k + int (Suc d)) = scale n' (t / 2 ^ Suc d * 2) (k + int (Suc d) - 1)"
    using lt k unfolding n by (simp del: power_Suc)
  also have "\<dots> = scale n' (t / 2 ^ d) (k + int d)" by simp
  also have "\<dots> = (t, k)" by (rule Suc.IH [OF d])
  finally show ?case .
qed

lemma round64_at:
  assumes "d \<le> 1074" and "\<bar>r * 2 ^ d\<bar> < 2 ^ 53" and "2 ^ 52 \<le> \<bar>r * 2 ^ d\<bar> \<or> d = 1074"
  shows "round64 r = Finite (of_int (rne (r * 2 ^ d)) / 2 ^ d)"
proof -
  have sc: "scale 1100 ((r * 2 ^ d) / 2 ^ d) (- int d + int d) = (r * 2 ^ d, - int d)"
    using assms by (intro scale_down) auto
  have sc': "scale 1100 r 0 = (r * 2 ^ d, - int d)" using sc by simp
  have "(1::real) \<le> 2 ^ d" by simp
  hence "\<bar>r\<bar> * 1 \<le> \<bar>r\<bar> * 2 ^ d" by (intro mult_left_mono) auto
  hence "\<bar>r\<bar> \<le> \<bar>r * 2 ^ d\<bar>" by (simp add: abs_mult)
  hence b: "\<bar>r\<bar> < 2 ^ 53" using assms(2) by simp
  have big: "(2::real) ^ 53 \<le> 2 ^ 1024 - 2 ^ 970" by simp
  have "\<not> 2 ^ 1024 - 2 ^ 970 \<le> r" "\<not> r \<le> - (2 ^ 1024 - 2 ^ 970)"
    using b big by linarith+
  thus ?thesis unfolding round64_def sc'
    by (simp add: power_int_minus field_simps)
qed

lemma upt_4: "[0..<4] = [0, 1, 2, 3]"
  by (simp add: eval_nat_numeral upt_rec)

lemma round64_0 [simp]: "round64 0 = Finite 0"
  using round64_at [of 1074 0] by (simp add: rne_def)

lemma round64_tenth: "round64 (1 / 10) = Finite (3602879701896397 / 36028797018963968)"
  using round64_at [of 56 "1 / 10"]
  by (simp add: rne_def)

lemma round64_milli: "round64 (1 / 1000) = Finite (1152921504606847 / 1152921504606846976)"
  using round64_at [of 62 "1 / 1000"]
  by (simp add: rne_def)

lemma m_f64_val: "m_f64 = Finite (3602879701896397 / 36028797018963968)"
  by (simp add: m_f64_def round64_tenth)

lemma g_f64_val: "g_f64 = Finite (2758454771764429 / 281474976710656)"
  using round64_at [of 49 "49 / 5"]
  by (simp add: g_f64_def rne_def)

lemma dt_f64_val: "dt_f64 = Finite (1152921504606847 / 1152921504606846976)"
  by (simp add: dt_f64_def round64_milli)

lemma A_f64_val:
  "A_f64 = [[Finite 0, Finite 1, Finite 0, Finite 0],
           [Finite 0, Finite 0, Finite (- (8827055269646173 / 9007199254740992)), Finite 0],
           [Finite 0, Finite 0, Finite 0, Finite 1],
           [Finite 0, Finite 0, Finite (379287531117609 / 35184372088832), Finite 0]]"
  using round64_at [of 53 "- (9938380705789319780001047862313 / 2 ^ 103)"]
    round64_at [of 53 "- (8827055269646173 / 9007199254740992)"]
    round64_at [of 52 "39631676720860365 / 36028797018963968"]
    round64_at [of 49 "6832636735230157521154143640617 / 2 ^ 99"]
    round64_at [of 49 "379287531117609 / 35184372088832"]
  by (simp add: A_f64_def M_f64_def l_f64_def m_f64_val g_f64_val rne_def)

lemma B_f64_val: "B_f64 = [[Finite 0], [Finite 1], [Finite 0], [Finite (- 1)]]"
  using round64_at [of 52 "1"]
    round64_at [of 52 "- 1"]
  by (simp add: B_f64_def M_f64_def l_f64_def rne_def)

lemma Ad_f64_val:
  "Ad_f64 = [[Finite 1, Finite (1152921504606847 / 1152921504606846976), Finite 0, Finite 0],
            [Finite 0, Finite 1, Finite (- (4519452298058841 / 4611686018427387904)), Finite 0],
            [Finite 0, Finite 0, Finite 1, Finite (1152921504606847 / 1152921504606846976)],
            [Finite 0, Finite 0, Finite (3107123454915453 / 288230376151711744), Finite 1]]"
  using round64_at [of 52 "1"]
    round64_at [of 62 "1152921504606847 / 1152921504606846976"]
    round64_at [of 62 "- (10176901842728263332223163146531 / 2 ^ 113)"]
    round64_at [of 62 "- (4519452298058841 / 4611686018427387904)"]
    round64_at [of 59 "437288751054730069560063668823 / 2 ^ 105"]
    round64_at [of 59 "3107123454915453 / 288230376151711744"]
  by (simp add: Ad_f64_def A_f64_val dt_f64_val dim_x_def fmat_defs rne_def upt_4)

lemma Bd_f64_val:
  "Bd_f64 = [[Finite 0],
            [Finite (1152921504606847 / 1152921504606846976)],
            [Finite 0],
            [Finite (- (1152921504606847 / 1152921504606846976))]]"
  using round64_at [of 62 "1152921504606847 / 1152921504606846976"]
    round64_at [of 62 "- (1152921504606847 / 1152921504606846976)"]
  by (simp add: Bd_f64_def B_f64_val dt_f64_val fmat_defs rne_def)



section \<open>Discretisation\<close>

text \<open>
  C3. The discrete matrices are the first-order Euler discretisation of the continuous
  ones with the step \<open>dt = 1e-3\<close>: \<open>Ad\<close> is \<open>dim_x\<close> by \<open>dim_x\<close> and its entry \<open>(i, j)\<close>
  is the identity's entry plus \<open>A[i][j] * dt\<close>; \<open>Bd\<close> has \<open>dim_x\<close> rows of one entry,
  \<open>B[i][0] * dt\<close>.
\<close>

theorem euler_discretisation:
  "dt = 1 / 1000 \<and> length Ad = dim_x \<and> length Bd = dim_x
   \<and> (\<forall>i<dim_x. length (Ad ! i) = dim_x \<and> Bd ! i = [B ! i ! 0 * dt])
   \<and> (\<forall>i<dim_x. \<forall>j<dim_x. Ad ! i ! j = (if i = j then 1 else 0) + A ! i ! j * dt)"
  unfolding dim_x_def all_less_4
  by (simp add: Ad_val Bd_val A_val B_val dt_def)

theorem euler_discretisation_witness:
  "(1::nat) < dim_x \<and> (2::nat) < dim_x \<and> (3::nat) < dim_x
   \<and> Ad ! 1 ! 2 = 0 + A ! 1 ! 2 * dt \<and> Ad ! 3 ! 3 = 1 + A ! 3 ! 3 * dt
   \<and> Bd ! 3 = [B ! 3 ! 0 * dt] \<and> Ad ! 1 ! 2 = - 49 / 50000 \<and> Bd ! 3 = [- 1 / 1000]"
proof -
  have h: "(1::nat) < dim_x" "(2::nat) < dim_x" "(3::nat) < dim_x"
    by (simp_all add: dim_x_def)
  have "Ad ! 1 ! 2 = (if (1::nat) = 2 then 1 else 0) + A ! 1 ! 2 * dt"
    and "Ad ! 3 ! 3 = (if (3::nat) = 3 then 1 else 0) + A ! 3 ! 3 * dt"
    and "Bd ! 3 = [B ! 3 ! 0 * dt]"
    using euler_discretisation h by blast+
  then show ?thesis
    using h by (simp add: A_val B_val dt_def)
qed

section \<open>The plant of the MPC loops and the simulator's Euler step\<close>

lemma round64_minus_milli: "round64 (- (1 / 1000)) = Finite (- (1152921504606847 / 1152921504606846976))"
  using round64_at [of 62 "- (1 / 1000)"]
  by (simp add: rne_def)

lemma plant_update_f64_val:
  "plant_update_f64 [Finite 1, Finite 0, Finite (- (1152921504606847 / 1152921504606846976)), Finite 0]
     [Finite 2] =
   Inr [Finite 1,
        Finite (4613945744576417 / 2305843009213693952),
        Finite (- (1152921504606847 / 1152921504606846976)),
        Finite (- (579567875758339 / 288230376151711744))]"
  using round64_at [of 52 "1"]
    round64_at [of 72 "5210573743476871314936977484327 / 2 ^ 122"]
    round64_at [of 72 "4627919153212253 / 4722366482869645213696"]
    round64_at [of 62 "- (1152921504606847 / 1152921504606846976)"]
    round64_at [of 69 "- (3582269448640348812846389906691 / 2 ^ 118)"]
    round64_at [of 69 "- (198855901114589 / 18446744073709551616)"]
    round64_at [of 61 "1152921504606847 / 576460752303423488"]
    round64_at [of 61 "- (1152921504606847 / 576460752303423488)"]
    round64_at [of 61 "9449360884892502877 / 4722366482869645213696"]
    round64_at [of 61 "- (37092344048533693 / 18446744073709551616)"]
  by (simp add: plant_update_f64_def Ad_f64_val Bd_f64_val fmat_defs rne_def)

lemma euler_step_f64_val:
  "euler_step_f64 [Finite 1, Finite 0, Finite (- (1152921504606847 / 1152921504606846976)), Finite 0]
     [Finite 2] dt_f64 =
   Inr [Finite 1,
        Finite (2306972872288209 / 1152921504606846976),
        Finite (- (1152921504606847 / 1152921504606846976)),
        Finite (- (579567875758339 / 288230376151711744))]"
  using round64_at [of 62 "10176901842728263332223163146531 / 2 ^ 113"]
    round64_at [of 62 "4519452298058841 / 4611686018427387904"]
    round64_at [of 59 "- (437288751054730069560063668823 / 2 ^ 105)"]
    round64_at [of 59 "- (3107123454915453 / 288230376151711744)"]
    round64_at [of 51 "2"]
    round64_at [of 51 "- 2"]
    round64_at [of 51 "9227891489152834649 / 4611686018427387904"]
    round64_at [of 51 "- (579567875758338941 / 288230376151711744)"]
    round64_at [of 52 "1"]
    round64_at [of 61 "1298710270998877582261710101519 / 2 ^ 109"]
    round64_at [of 61 "2306972872288209 / 1152921504606846976"]
    round64_at [of 62 "- (1152921504606847 / 1152921504606846976)"]
    round64_at [of 61 "- (5220283338602330488738847571481 / 2 ^ 111)"]
    round64_at [of 61 "- (579567875758339 / 288230376151711744)"]
  by (simp add: euler_step_f64_def xdot_f64_def A_f64_val B_f64_val dt_f64_val fmat_defs
      rne_def)

lemma round64_plant_entry:
  "round64 (200098 / 100000000) = Finite (4613945744576417 / 2305843009213693952)"
  using round64_at [of 61 "100049 / 50000000"]
  by (simp add: rne_def)

text \<open>
  C5, as the claim states it, fails: as float64 computes them, the plant update and the
  Euler step are not equal. At \<open>x = [1, 0, -1e-3, 0]\<close> and \<open>u = [2]\<close> the entry 1 of
  \<open>Ad.dot(x) + Bd.dot(u)\<close> is \<open>4613945744576417 / 2^61\<close>, the float64 nearest to
  0.00200098, and the entry 1 of \<open>x + xdot(x, u)*dt\<close> is the next float64 above it,
  \<open>2306972872288209 / 2^60\<close>. The plant update multiplies by the rounded entries of
  \<open>Ad = I + A*dt\<close>; the Euler step rounds \<open>A x + B u\<close> first and its product with
  \<open>dt\<close> after.
\<close>

theorem plant_update_f64_differs_counterexample:
  "round64 (- (1 / 1000)) = Finite (- (1152921504606847 / 2 ^ 60))
   \<and> round64 (200098 / 100000000) = Finite (4613945744576417 / 2 ^ 61)
   \<and> plant_update_f64 [Finite 1, Finite 0, round64 (- (1 / 1000)), Finite 0] [Finite 2]
       = Inr [Finite 1, Finite (4613945744576417 / 2 ^ 61),
              Finite (- (1152921504606847 / 2 ^ 60)), Finite (- (579567875758339 / 2 ^ 58))]
   \<and> euler_step_f64 [Finite 1, Finite 0, round64 (- (1 / 1000)), Finite 0] [Finite 2] dt_f64
       = Inr [Finite 1, Finite (2306972872288209 / 2 ^ 60),
              Finite (- (1152921504606847 / 2 ^ 60)), Finite (- (579567875758339 / 2 ^ 58))]
   \<and> plant_update_f64 [Finite 1, Finite 0, round64 (- (1 / 1000)), Finite 0] [Finite 2]
       \<noteq> euler_step_f64 [Finite 1, Finite 0, round64 (- (1 / 1000)), Finite 0] [Finite 2]
           dt_f64"
  using round64_minus_milli round64_plant_entry plant_update_f64_val euler_step_f64_val
  by simp

text \<open>
  C5, amended. With every operation read as the exact operation on real numbers, that is
  with the rounding of float64 left aside: for a state \<open>x\<close> of dimension 4 and a control
  \<open>u\<close> of dimension 1, the plant update \<open>Ad.dot(x) + Bd.dot(u)\<close> of the MPC loops
  returns, and returns what the Euler step \<open>x + xdot(x, u)*dt\<close> of the open-loop
  simulator returns. The equality rests on distributivity, which the rounded operations
  of float64 do not have: as float64 the two results can differ in the last place.
\<close>

theorem plant_update_is_euler_step:
  assumes "length x = dim_x" and "length u = dim_u"
  shows "plant_update x u = euler_step x u dt
         \<and> (\<exists>v. plant_update x u = Inr v \<and> length v = dim_x)"
proof -
  obtain a b c d where x: "x = [a, b, c, d]"
    using assms(1) length_4_cases unfolding dim_x_def by blast
  obtain e where u: "u = [e]"
    using assms(2) length_1_cases unfolding dim_u_def by blast
  show ?thesis
    unfolding x u
    by (simp add: plant_update_def euler_step_def xdot_def np_dot_def ncols_def matvec_def
        inner_def vadd_def vscale_def Ad_val Bd_val A_val B_val dt_def dim_x_def field_simps)
qed

theorem plant_update_is_euler_step_witness:
  "length [1, 0, - (1 / 1000), 0 :: real] = dim_x \<and> length [2 :: real] = dim_u
   \<and> plant_update [1, 0, - (1 / 1000), 0] [2] = euler_step [1, 0, - (1 / 1000), 0] [2] dt
   \<and> euler_step [1, 0, - (1 / 1000), 0] [2] dt
       = Inr [1, 200098 / 100000000, - (1 / 1000), - 201078 / 100000000]"
proof -
  have h: "length [1, 0, - (1 / 1000), 0 :: real] = dim_x" "length [2 :: real] = dim_u"
    by (simp_all add: dim_x_def dim_u_def)
  have "euler_step [1, 0, - (1 / 1000), 0] [2] dt
          = Inr [1, 200098 / 100000000, - (1 / 1000), - 201078 / 100000000]"
    by (simp add: euler_step_def xdot_def np_dot_def ncols_def matvec_def inner_def vadd_def
        vscale_def A_val B_val dt_def)
  then show ?thesis
    using h plant_update_is_euler_step [OF h] by simp
qed

section \<open>The stage cost\<close>







lemma not_neg_simps [simp]:
  "not_neg (Finite v) = (0 \<le> v)" "not_neg PosInf" "\<not> not_neg NegInf" "not_neg NaN"
  by (simp_all add: not_neg_def)

lemma not_pos_simps [simp]:
  "not_pos (Finite v) = (v \<le> 0)" "\<not> not_pos PosInf" "not_pos NegInf" "not_pos NaN"
  by (simp_all add: not_pos_def)




















section \<open>The open-loop simulator follows the Euler recurrence\<close>

lemma for_loop_snoc:
  "for_loop body (ts @ [t]) s =
     (case for_loop body ts s of Inl e \<Rightarrow> Inl e | Inr s' \<Rightarrow> body t s')"
  by (induction ts arbitrary: s) (auto split: sum.splits)

lemma length_np_empty: "length (np_empty junk r c) = c"
  by (simp add: np_empty_def)

lemma length_matvec: "length (matvec a v) = length a"
  by (simp add: matvec_def)

lemma length_vadd: "length (vadd v w) = min (length v) (length w)"
  by (simp add: vadd_def)

lemma length_vscale: "length (vscale v c) = length v"
  by (simp add: vscale_def)

lemma euler_step_val:
  assumes "length x = dim_x" and "length u = dim_u"
  shows "euler_step x u h = Inr (vadd x (vscale (vadd (matvec A x) (matvec B u)) h))"
  using assms
  by (simp add: euler_step_def xdot_def np_dot_def ncols_def A_val B_val dim_x_def dim_u_def)

lemma length_euler_val:
  assumes "length x = dim_x"
  shows "length (vadd x (vscale (vadd (matvec A x) (matvec B u)) h)) = dim_x"
  using assms
  by (simp add: length_vadd length_vscale length_matvec A_val B_val dim_x_def)

lemma ol_body_val:
  assumes "length (v_X s ! k) = dim_x" and "k < length (v_U s)"
    and "length (v_U s ! k) = dim_u"
  shows "ol_body h k s = Inr (s\<lparr>v_X := (v_X s)[Suc k :=
           vadd (v_X s ! k) (vscale (vadd (matvec A (v_X s ! k)) (matvec B (v_U s ! k))) h)]\<rparr>)"
  using assms by (simp add: ol_body_def get_col_def euler_step_val)

text \<open>The invariant of the loop after \<open>k\<close> iterations: the arguments are as they were,
  \<open>X\<close> has its \<open>steps + 1\<close> columns, the columns up to \<open>k\<close> are states of dimension 4,
  and each is the Euler update of the one before.\<close>

lemma ol_loop_invariant:
  assumes x0: "length x0 = dim_x" and U: "\<forall>c\<in>set U. length c = dim_u"
    and steps: "steps \<le> length U" and k: "k \<le> steps"
  shows "\<exists>s. for_loop (ol_body h) [0..<k]
               \<lparr>v_x0 = x0, v_U = U, v_X = (np_empty junk (length x0) (steps + 1))[0 := x0]\<rparr>
             = Inr s
           \<and> v_x0 s = x0 \<and> v_U s = U \<and> length (v_X s) = steps + 1 \<and> v_X s ! 0 = x0
           \<and> (\<forall>t\<le>k. length (v_X s ! t) = dim_x)
           \<and> (\<forall>t<k. v_X s ! Suc t =
                 vadd (v_X s ! t) (vscale (vadd (matvec A (v_X s ! t)) (matvec B (U ! t))) h))"
  using k
proof (induction k)
  case 0
  show ?case using x0 by (simp add: length_np_empty)
next
  case (Suc k)
  then obtain s where run: "for_loop (ol_body h) [0..<k]
               \<lparr>v_x0 = x0, v_U = U, v_X = (np_empty junk (length x0) (steps + 1))[0 := x0]\<rparr>
             = Inr s"
    and fr: "v_x0 s = x0" "v_U s = U" and len: "length (v_X s) = steps + 1"
    and first: "v_X s ! 0 = x0"
    and sizes: "\<forall>t\<le>k. length (v_X s ! t) = dim_x"
    and rec: "\<forall>t<k. v_X s ! Suc t =
                 vadd (v_X s ! t) (vscale (vadd (matvec A (v_X s ! t)) (matvec B (U ! t))) h)"
    by auto
  let ?xn = "vadd (v_X s ! k) (vscale (vadd (matvec A (v_X s ! k)) (matvec B (U ! k))) h)"
  let ?s' = "s\<lparr>v_X := (v_X s)[Suc k := ?xn]\<rparr>"
  have kU: "k < length U" using Suc.prems steps by simp
  then have uk: "length (U ! k) = dim_u" using U by simp
  have xk: "length (v_X s ! k) = dim_x" using sizes by simp
  have body: "ol_body h k s = Inr ?s'"
    using ol_body_val [of s k h] xk kU uk fr by simp
  have step: "for_loop (ol_body h) [0..<Suc k]
               \<lparr>v_x0 = x0, v_U = U, v_X = (np_empty junk (length x0) (steps + 1))[0 := x0]\<rparr>
             = Inr ?s'"
    using run body by (simp add: for_loop_snoc)
  have in_range: "Suc k < length (v_X s)" using Suc.prems len by simp
  have sizes': "\<forall>t\<le>Suc k. length (v_X ?s' ! t) = dim_x"
    using sizes in_range length_euler_val [OF xk]
    by (auto simp: nth_list_update le_Suc_eq)
  have rec': "\<forall>t<Suc k. v_X ?s' ! Suc t =
                 vadd (v_X ?s' ! t) (vscale (vadd (matvec A (v_X ?s' ! t)) (matvec B (U ! t))) h)"
    using rec in_range by (auto simp: nth_list_update less_Suc_eq)
  show ?case
    using step fr len first sizes' rec' by (intro exI [of _ ?s']) simp
qed

text \<open>
  C7. For an initial state \<open>x0\<close> of size 4 and a sequence \<open>U\<close> of controls of size 1 with
  at least \<open>steps\<close> columns, \<open>integrateOpenLoop(x0, U, steps, dt)\<close> returns; the returned
  \<open>X\<close> has \<open>steps + 1\<close> columns, \<open>X[:,0] = x0\<close>, and for every \<open>t < steps\<close>
  \<open>X[:,t+1] = X[:,t] + (A X[:,t] + B U[:,t]) dt\<close>; \<open>x0\<close> and \<open>U\<close> are as they were.
  The result does not depend on what \<open>np.empty\<close> left in \<open>X\<close>.
\<close>

theorem integrateOpenLoop_euler:
  assumes "length x0 = dim_x" and "\<forall>c\<in>set U. length c = dim_u" and "steps \<le> length U"
  shows "\<exists>s. integrateOpenLoop junk x0 U steps h = Inr s
           \<and> length (v_X s) = steps + 1 \<and> v_X s ! 0 = x0
           \<and> (\<forall>t<steps. v_X s ! (t + 1) =
                 vadd (v_X s ! t) (vscale (vadd (matvec A (v_X s ! t)) (matvec B (U ! t))) h))
           \<and> v_x0 s = x0 \<and> v_U s = U"
  using ol_loop_invariant [OF assms, of steps h junk]
  unfolding integrateOpenLoop_def by auto

theorem integrateOpenLoop_euler_witness:
  "length [1, 0, - (1 / 1000), 0 :: real] = dim_x
   \<and> length [2 :: real] = dim_u \<and> length [0 :: real] = dim_u
   \<and> 2 \<le> length [[2], [0 :: real]]
   \<and> (\<exists>s. integrateOpenLoop (\<lambda>i j. 7) [1, 0, - (1 / 1000), 0] [[2], [0]] 2 (1 / 1000) = Inr s
         \<and> v_X s = [[1, 0, - (1 / 1000), 0],
                    [1, 100049 / 50000000, - (1 / 1000), - (100539 / 50000000)],
                    [50000100049 / 50000000000, 50049 / 25000000,
                     - (50100539 / 50000000000), - (50539 / 25000000)]]
         \<and> v_X s ! (1 + 1) =
             vadd (v_X s ! 1)
               (vscale (vadd (matvec A (v_X s ! 1)) (matvec B ([[2], [0]] ! 1))) (1 / 1000))
         \<and> v_x0 s = [1, 0, - (1 / 1000), 0] \<and> v_U s = [[2], [0]])"
proof -
  have h: "length [1, 0, - (1 / 1000), 0 :: real] = dim_x"
    "\<forall>c\<in>set [[2], [0 :: real]]. length c = dim_u" "2 \<le> length [[2], [0 :: real]]"
    by (simp_all add: dim_x_def dim_u_def)
  from integrateOpenLoop_euler [OF h, of "\<lambda>i j. 7" "1 / 1000"]
  obtain s where run:
      "integrateOpenLoop (\<lambda>i j. 7) [1, 0, - (1 / 1000), 0] [[2], [0]] 2 (1 / 1000) = Inr s"
    and rec: "\<forall>t<2. v_X s ! (t + 1) =
        vadd (v_X s ! t)
          (vscale (vadd (matvec A (v_X s ! t)) (matvec B ([[2], [0]] ! t))) (1 / 1000))"
    and fr: "v_x0 s = [1, 0, - (1 / 1000), 0]" "v_U s = [[2], [0]]"
    by blast
  have val: "integrateOpenLoop (\<lambda>i j. 7) [1, 0, - (1 / 1000), 0] [[2], [0]] 2 (1 / 1000)
      = Inr \<lparr>v_x0 = [1, 0, - (1 / 1000), 0], v_U = [[2], [0]],
             v_X = [[1, 0, - (1 / 1000), 0],
                    [1, 100049 / 50000000, - (1 / 1000), - (100539 / 50000000)],
                    [50000100049 / 50000000000, 50049 / 25000000,
                     - (50100539 / 50000000000), - (50539 / 25000000)]]\<rparr>"
    by (simp add: integrateOpenLoop_def ol_body_def get_col_def euler_step_def xdot_def
        np_dot_def ncols_def matvec_def inner_def vadd_def vscale_def np_empty_def A_val B_val
        upt_rec Let_def)
  have "v_X s ! (1 + 1) =
        vadd (v_X s ! 1)
          (vscale (vadd (matvec A (v_X s ! 1)) (matvec B ([[2], [0]] ! 1))) (1 / 1000))"
    using rec by simp
  moreover have "length [2 :: real] = dim_u" "length [0 :: real] = dim_u"
    by (simp_all add: dim_u_def)
  ultimately show ?thesis
    using h(1,3) run val fr by auto
qed

section \<open>The program that the builder cell constructs\<close>

lemma build_fold_objective:
  "objective (fold (build_body todo) [0..<n] s) X U
     = objective s X U + (\<Sum>k<n. quad_form (X ! k) Qd + quad_form (U ! k) Rd)"
  by (induction n) (simp_all add: build_body_def)

lemma build_fold_constraints:
  "constraints (fold (build_body todo) [0..<n] s)
     = constraints s @ concat (map (\<lambda>k. dynamics_constraint k # todo k) [0..<n])"
  by (induction n) (simp_all add: build_body_def)

lemma build_fold_shapes:
  "U_shape (fold (build_body todo) [0..<n] s) = U_shape s"
  "X_shape (fold (build_body todo) [0..<n] s) = X_shape s"
  "U_shape (fold build_body_terminal [0..<n] s) = U_shape s"
  "X_shape (fold build_body_terminal [0..<n] s) = X_shape s"
  by (induction n) (simp_all add: build_body_def build_body_terminal_def)

lemma build_fold_terminal_objective:
  "objective (fold build_body_terminal [0..<n] s) X U
     = objective s X U + (\<Sum>k<n. quad_form (X ! k) Qd + quad_form (U ! k) Rd)"
  by (induction n) (simp_all add: build_body_terminal_def)

lemma build_fold_terminal_constraints:
  "constraints (fold build_body_terminal [0..<n] s)
     = constraints s @ map dynamics_constraint [0..<n]"
  by (induction n) (simp_all add: build_body_terminal_def)

text \<open>
  C1. For every horizon \<open>n\<close>, the program built by the cell has the variables \<open>U\<close> of
  \<open>n\<close> columns and \<open>X\<close> of \<open>n + 1\<close> columns, and minimises the sum over
  \<open>k = 0..n-1\<close> of \<open>x_k^T Qd x_k + u_k^T Rd u_k\<close> plus the terminal term \<open>x_n^T P x_n\<close>.
  Its constraints are the initial condition \<open>X[:,0] = x_init\<close> followed, for each
  \<open>k = 0..n-1\<close>, by the dynamics \<open>x_{k+1} = Ad x_k + Bd u_k\<close> and whatever constraints
  fill the blank of step \<open>k\<close>; so, for every value of \<open>x_init\<close>, the feasible \<open>X\<close> and
  \<open>U\<close> are those that start at it, follow the dynamics and meet the added constraints.
  \<open>Qd\<close> and \<open>Rd\<close> are \<open>Q\<close> and \<open>R\<close> times \<open>dt\<close>. The cell with the terminal cost
  builds the same sum plus what fills its blank, under the initial condition and the
  dynamics alone: with \<open>x_n^T P x_n\<close> in the blank it is the same program without added
  constraints.
\<close>

theorem build_mpc_is_the_qp:
  "U_shape (build_mpc n Pm todo) = (dim_u, n) \<and> X_shape (build_mpc n Pm todo) = (dim_x, n + 1)
   \<and> objective (build_mpc n Pm todo) X U
     = (\<Sum>k<n. quad_form (X ! k) Qd + quad_form (U ! k) Rd) + quad_form (X ! n) Pm
   \<and> constraints (build_mpc n Pm todo)
       = init_constraint # concat (map (\<lambda>k. dynamics_constraint k # todo k) [0..<n])
   \<and> (feasible (build_mpc n Pm todo) xi X U \<longleftrightarrow>
        X ! 0 = xi
        \<and> (\<forall>k<n. X ! Suc k = vadd (matvec Ad (X ! k)) (matvec Bd (U ! k)))
        \<and> (\<forall>k<n. \<forall>c\<in>set (todo k). c xi X U))
   \<and> (\<forall>i<dim_x. \<forall>j<dim_x. Qd ! i ! j = Q ! i ! j * dt)
   \<and> Rd = [[R ! 0 ! 0 * dt]]
   \<and> objective (build_mpc_terminal n todo_cost) X U
       = (\<Sum>k<n. quad_form (X ! k) Qd + quad_form (U ! k) Rd) + todo_cost X U
   \<and> constraints (build_mpc_terminal n todo_cost)
       = init_constraint # map dynamics_constraint [0..<n]
   \<and> build_mpc_terminal n (\<lambda>X U. quad_form (X ! n) Pm) = build_mpc n Pm (\<lambda>k. [])"
proof -
  have shp: "U_shape (build_mpc n Pm td) = (dim_u, n)"
    "X_shape (build_mpc n Pm td) = (dim_x, n + 1)"
    "U_shape (build_mpc_terminal n c) = (dim_u, n)"
    "X_shape (build_mpc_terminal n c) = (dim_x, n + 1)" for c td
    by (simp_all add: build_mpc_def build_mpc_terminal_def Let_def build_fold_shapes)
  have obj: "objective (build_mpc n Pm todo) X U
     = (\<Sum>k<n. quad_form (X ! k) Qd + quad_form (U ! k) Rd) + quad_form (X ! n) Pm"
    by (simp add: build_mpc_def Let_def build_fold_objective)
  have cons: "constraints (build_mpc n Pm todo)
       = init_constraint # concat (map (\<lambda>k. dynamics_constraint k # todo k) [0..<n])"
    by (simp add: build_mpc_def Let_def build_fold_constraints)
  have feas: "feasible (build_mpc n Pm todo) xi X U \<longleftrightarrow>
        X ! 0 = xi
        \<and> (\<forall>k<n. X ! Suc k = vadd (matvec Ad (X ! k)) (matvec Bd (U ! k)))
        \<and> (\<forall>k<n. \<forall>c\<in>set (todo k). c xi X U)"
    unfolding feasible_def cons
    by (auto simp: list_all_iff init_constraint_def dynamics_constraint_def)
  have w: "(\<forall>i<dim_x. \<forall>j<dim_x. Qd ! i ! j = Q ! i ! j * dt) \<and> Rd = [[R ! 0 ! 0 * dt]]"
    unfolding dim_x_def all_less_4 by (simp add: Qd_val Q_val Rd_val R_val dt_def)
  have tobj: "objective (build_mpc_terminal n c) Y V
       = (\<Sum>k<n. quad_form (Y ! k) Qd + quad_form (V ! k) Rd) + c Y V" for c Y V
    by (simp add: build_mpc_terminal_def Let_def build_fold_terminal_objective)
  have tcons: "constraints (build_mpc_terminal n c)
       = init_constraint # map dynamics_constraint [0..<n]" for c
    by (simp add: build_mpc_terminal_def Let_def build_fold_terminal_constraints)
  have "concat (map (\<lambda>k. [dynamics_constraint k]) [0..<n]) = map dynamics_constraint [0..<n]"
    by (induction n) simp_all
  then have same_cons: "constraints (build_mpc_terminal n (\<lambda>X U. quad_form (X ! n) Pm))
      = constraints (build_mpc n Pm (\<lambda>k. []))"
    by (simp add: tcons build_mpc_def Let_def build_fold_constraints)
  have same_obj: "objective (build_mpc_terminal n (\<lambda>X U. quad_form (X ! n) Pm))
      = objective (build_mpc n Pm (\<lambda>k. []))"
    by (intro ext)
       (simp add: tobj build_mpc_def Let_def build_fold_objective)
  have same: "build_mpc_terminal n (\<lambda>X U. quad_form (X ! n) Pm) = build_mpc n Pm (\<lambda>k. [])"
    using same_obj same_cons by (intro problem.equality) (simp_all add: shp)
  show ?thesis using shp(1,2) obj cons feas w tobj tcons same by blast
qed

theorem build_mpc_is_the_qp_witness:
  "feasible (build_mpc 2 demo_P (input_bound 5)) [0, 0, 0, 0] demo_X demo_U
   \<and> \<not> feasible (build_mpc 2 demo_P (input_bound (1 / 2))) [0, 0, 0, 0] demo_X demo_U
   \<and> \<not> feasible (build_mpc 2 demo_P (input_bound 5)) [0, 0, 0, 1] demo_X demo_U
   \<and> objective (build_mpc 2 demo_P (input_bound 5)) demo_X demo_U = 1550501 / 500000000000
   \<and> (0 :: nat) < dim_x \<and> (1 :: nat) < dim_x \<and> Qd ! 1 ! 1 = Q ! 1 ! 1 * dt"
proof -
  have two: "\<And>P. (\<forall>k<2::nat. P k) \<longleftrightarrow> P 0 \<and> P 1"
    by (auto simp: eval_nat_numeral less_Suc_eq)
  have dyn: "demo_X ! Suc 0 = vadd (matvec Ad (demo_X ! 0)) (matvec Bd (demo_U ! 0))"
    "demo_X ! Suc 1 = vadd (matvec Ad (demo_X ! 1)) (matvec Bd (demo_U ! 1))"
    by (simp_all add: demo_X_def demo_U_def vadd_def matvec_def inner_def Ad_val Bd_val)
  have bound: "\<forall>c\<in>set (input_bound 5 0). c [0, 0, 0, 0] demo_X demo_U"
    "\<forall>c\<in>set (input_bound 5 1). c [0, 0, 0, 0] demo_X demo_U"
    "\<not> (\<forall>c\<in>set (input_bound (1 / 2) 0). c [0, 0, 0, 0] demo_X demo_U)"
    by (simp_all add: input_bound_def demo_U_def)
  have start: "demo_X ! 0 = [0, 0, 0, 0]" "demo_X ! 0 \<noteq> [0, 0, 0, 1]"
    by (simp_all add: demo_X_def)
  have f1: "feasible (build_mpc 2 demo_P (input_bound 5)) [0, 0, 0, 0] demo_X demo_U"
    using build_mpc_is_the_qp [of 2 demo_P "input_bound 5" demo_X demo_U "[0, 0, 0, 0]"]
      dyn bound start unfolding two by simp
  have f2: "\<not> feasible (build_mpc 2 demo_P (input_bound (1 / 2))) [0, 0, 0, 0] demo_X demo_U"
    using build_mpc_is_the_qp [of 2 demo_P "input_bound (1 / 2)" demo_X demo_U "[0, 0, 0, 0]"]
      bound unfolding two by simp
  have f3: "\<not> feasible (build_mpc 2 demo_P (input_bound 5)) [0, 0, 0, 1] demo_X demo_U"
    using build_mpc_is_the_qp [of 2 demo_P "input_bound 5" demo_X demo_U "[0, 0, 0, 1]"]
      start by simp
  have "objective (build_mpc 2 demo_P (input_bound 5)) demo_X demo_U
      = (\<Sum>k<2. quad_form (demo_X ! k) Qd + quad_form (demo_U ! k) Rd)
        + quad_form (demo_X ! 2) demo_P"
    using build_mpc_is_the_qp [of 2 demo_P "input_bound 5" demo_X demo_U] by simp
  also have "\<dots> = 1550501 / 500000000000"
    by (simp add: eval_nat_numeral quad_form_def inner_def matvec_def demo_X_def demo_U_def
        demo_P_def Qd_val Rd_val)
  finally have o: "objective (build_mpc 2 demo_P (input_bound 5)) demo_X demo_U
      = 1550501 / 500000000000" .
  have h: "(0 :: nat) < dim_x" "(1 :: nat) < dim_x" by (simp_all add: dim_x_def)
  have q: "Qd ! 1 ! 1 = Q ! 1 ! 1 * dt"
    using build_mpc_is_the_qp [of 2 demo_P "input_bound 5" demo_X demo_U] h by blast
  show ?thesis using f1 f2 f3 o h q by simp
qed

section \<open>One iteration of the receding-horizon loops\<close>

lemma attempt_Inl [simp]: "attempt f (Inl es) = Inl es"
  by (simp add: attempt_def)

lemma attempt_Inr:
  "attempt f (Inr s) = (case f s of Inl e \<Rightarrow> Inl (e, s) | Inr s' \<Rightarrow> Inr s')"
  by (simp add: attempt_def)

lemma get_col_0: "get_col a 0 = (case a of [] \<Rightarrow> Inl IndexError | u # rest \<Rightarrow> Inr u)"
  by (cases a) (simp_all add: get_col_def)


lemma np_dot_Ad: "np_dot Ad x = (if length x = dim_x then Inr (matvec Ad x) else Inl ValueError)"
  by (simp add: np_dot_def ncols_def Ad_val dim_x_def)

lemma np_dot_Bd: "np_dot Bd u = (if length u = dim_u then Inr (matvec Bd u) else Inl ValueError)"
  by (simp add: np_dot_def ncols_def Bd_val dim_u_def)

lemma apply_control_Inr:
  "apply_control s = Inr s' \<longleftrightarrow>
     (\<exists>u rest. g_U_value s = Some (u # rest) \<and> length (g_x s) = dim_x \<and> length u = dim_u
        \<and> s' = s\<lparr>g_x := vadd (matvec Ad (g_x s)) (matvec Bd u)\<rparr>)"
  by (auto simp: apply_control_def np_dot_Ad np_dot_Bd first_control_def get_col_0
      split: option.splits list.splits)

lemma store_control_Inr:
  "store_control t s = Inr s' \<longleftrightarrow>
     (g_U_value s = None \<and> s' = s\<lparr>g_Utraj := (g_Utraj s)[t := NaN]\<rparr>)
     \<or> (\<exists>v rest. g_U_value s = Some ([v] # rest)
           \<and> s' = s\<lparr>g_Utraj := (g_Utraj s)[t := Finite v]\<rparr>)"
  by (auto simp: store_control_def first_control_def get_col_0
      split: option.splits list.splits)

lemma call_solve_Inr:
  "call_solve solve ws t s = Inr s' \<longleftrightarrow>
     (\<exists>xi J Uv c. g_x_init_value s = Some xi \<and> solve (g_mpc s) xi ws (g_cache s) = Inr (J, Uv, c)
        \<and> s' = s\<lparr>g_U_value := Uv, g_cache := c, g_Jtraj := (g_Jtraj s)[t := J]\<rparr>)"
  by (auto simp: call_solve_def split: option.splits sum.splits)

lemma set_x_init_Inr:
  "set_x_init s = Inr s' \<longleftrightarrow> length (g_x s) = dim_x \<and> s' = s\<lparr>g_x_init_value := Some (g_x s)\<rparr>"
  by (auto simp: set_x_init_def)

lemma attempt_eq_Inr:
  "attempt f r = Inr s' \<longleftrightarrow> (\<exists>s. r = Inr s \<and> f s = Inr s')"
  by (auto simp: attempt_def split: sum.splits)

text \<open>An iteration that completes: the solver was called on the problem with the current
  state as the value of \<open>x_init\<close>, it returned a plan with a first column of size one, and
  the globals are updated as follows.\<close>

lemma body_constrained_Inr:
  assumes "mpc_body_constrained solve t s = Inr s'"
  shows "\<exists>J u rest c.
           solve (g_mpc s) (g_x s) True (g_cache s) = Inr (J, Some (u # rest), c)
         \<and> s' = s\<lparr>g_x_init_value := Some (g_x s), g_U_value := Some (u # rest), g_cache := c,
                  g_Jtraj := (g_Jtraj s)[t := J], g_Xtraj := (g_Xtraj s)[t := g_x s],
                  g_Utraj := (g_Utraj s)[t := Finite (hd u)],
                  g_x := vadd (matvec Ad (g_x s)) (matvec Bd u)\<rparr>
         \<and> length (g_x s) = dim_x \<and> length u = dim_u"
  using assms
  by (auto simp: mpc_body_constrained_def attempt_eq_Inr set_x_init_Inr call_solve_Inr
      store_control_Inr apply_control_Inr store_state_def)




text \<open>The first iteration of both loops with the solver \<open>demo_solve\<close>, and the second
  of the loop over the input-constrained program.\<close>

lemma demo_body_constrained:
  "mpc_body_constrained demo_solve 0 demo_env =
     Inr (demo_env\<lparr>g_x_init_value := Some mpc_x0, g_U_value := Some [[2], [5]],
        g_Jtraj := [Finite 3, Finite 7], g_Xtraj := [mpc_x0, [7, 7, 7, 7]], g_Utraj := [Finite 2, Finite 7],
        g_x := [1, 200098 / 100000000, - (1 / 1000), - 201078 / 100000000]\<rparr>)"
  by (simp add: mpc_body_constrained_def attempt_Inr set_x_init_def call_solve_def
      store_state_def store_control_def apply_control_def first_control_def get_col_0
      demo_env_def demo_solve_def mpc_start_def mpc_x0_def np_empty_def np_empty1_def upt_rec
      dim_x_def plant_update_def np_dot_def ncols_def matvec_def inner_def vadd_def
      Ad_val Bd_val)


lemma demo_body_constrained_next:
  "mpc_body_constrained demo_solve (Suc 0)
     (demo_env\<lparr>g_x_init_value := Some mpc_x0, g_U_value := Some [[2], [5]],
        g_Jtraj := [Finite 3, Finite 7], g_Xtraj := [mpc_x0, [7, 7, 7, 7]], g_Utraj := [Finite 2, Finite 7],
        g_x := [1, 200098 / 100000000, - (1 / 1000), - 201078 / 100000000]\<rparr>) =
     Inr (demo_env\<lparr>
        g_x_init_value := Some [1, 200098 / 100000000, - (1 / 1000), - 201078 / 100000000],
        g_U_value := Some [[2], [5]], g_Jtraj := [Finite 3, Finite 3],
        g_Xtraj := [mpc_x0, [1, 200098 / 100000000, - (1 / 1000), - 201078 / 100000000]],
        g_Utraj := [Finite 2, Finite 2],
        g_x := [50000100049 / 50000000000, 100049 / 25000000, - (50100539 / 50000000000),
                - (100539 / 25000000)]\<rparr>)"
  by (simp add: mpc_body_constrained_def attempt_Inr set_x_init_def call_solve_def
      store_state_def store_control_def apply_control_def first_control_def get_col_0
      demo_env_def demo_solve_def mpc_start_def mpc_x0_def np_empty_def np_empty1_def upt_rec
      dim_x_def plant_update_def np_dot_def ncols_def matvec_def inner_def vadd_def
      Ad_val Bd_val)





lemma demo_env_fields:
  "g_x demo_env = mpc_x0" "length (g_x demo_env) = dim_x" "g_cache demo_env = ()"
  "g_Jtraj demo_env = [Finite 7, Finite 7]" "g_Xtraj demo_env = [[7, 7, 7, 7], [7, 7, 7, 7]]"
  by (simp_all add: demo_env_def mpc_start_def mpc_x0_def dim_x_def np_empty_def np_empty1_def
      upt_rec)

section \<open>Only the first move of a plan reaches the plant\<close>












section \<open>The program is built once\<close>

lemma body_constrained_problem:
  "g_mpc (final_env (mpc_body_constrained solve t s)) = g_mpc s"
  by (auto simp: final_env_def mpc_body_constrained_def attempt_Inr set_x_init_def call_solve_def
      store_state_def store_control_def apply_control_def
      split: sum.splits option.splits list.splits prod.splits if_splits)

lemma for_loop_problem:
  assumes "\<And>t s. g_mpc (final_env (body t s)) = g_mpc s"
  shows "g_mpc (final_env (for_loop body ts s)) = g_mpc s"
proof (induction ts arbitrary: s)
  case Nil
  show ?case by (simp add: final_env_def)
next
  case (Cons t ts)
  show ?case
  proof (cases "body t s")
    case (Inl es)
    then show ?thesis using assms [of t s] by simp
  next
    case (Inr s')
    then have "g_mpc s' = g_mpc s" using assms [of t s] by (simp add: final_env_def)
    then show ?thesis using Inr Cons.IH [of s'] by simp
  qed
qed

text \<open>
  C8. The loop over the input-constrained program leaves the problem (objective and
  constraints) as it was built before the loop, however the loop ends. An iteration that
  completes changes, of the state of the cvxpy objects, only the value of \<open>x_init\<close>, set
  to the current state, and what the solve itself leaves (the value of \<open>U\<close> and the
  cache). So two consecutive solves are calls on the same problem, the second with the
  cache that the first left and with the new state as the value of \<open>x_init\<close>.
\<close>

theorem problem_built_once:
  "g_mpc (final_env (mpc_loop_constrained solve steps s)) = g_mpc s
   \<and> g_mpc (final_env (mpc_loop_constrained solve steps
               (mpc_start (build_mpc n Pm todo) c0 junkX junkU junkJ x0 steps)))
       = build_mpc n Pm todo
   \<and> (mpc_body_constrained solve t s = Inr s' \<longrightarrow>
        (\<exists>J Uv c. solve (g_mpc s) (g_x s) True (g_cache s) = Inr (J, Uv, c)
           \<and> g_mpc s' = g_mpc s \<and> g_x_init_value s' = Some (g_x s)
           \<and> g_U_value s' = Uv \<and> g_cache s' = c))
   \<and> (mpc_body_constrained solve t s = Inr s' \<and> mpc_body_constrained solve (Suc t) s' = Inr s''
        \<longrightarrow> (\<exists>J Uv c J' Uv' c'.
               solve (g_mpc s) (g_x s) True (g_cache s) = Inr (J, Uv, c)
             \<and> solve (g_mpc s) (g_x s') True c = Inr (J', Uv', c')))"
proof -
  have loop: "\<And>s. g_mpc (final_env (mpc_loop_constrained solve steps s)) = g_mpc s"
    unfolding mpc_loop_constrained_def
    by (rule for_loop_problem) (rule body_constrained_problem)
  have start: "g_mpc (mpc_start (build_mpc n Pm todo) c0 junkX junkU junkJ x0 steps)
      = build_mpc n Pm todo"
    by (simp add: mpc_start_def)
  have one: "\<exists>J Uv c. solve (g_mpc a) (g_x a) True (g_cache a) = Inr (J, Uv, c)
           \<and> g_mpc b = g_mpc a \<and> g_x_init_value b = Some (g_x a)
           \<and> g_U_value b = Uv \<and> g_cache b = c"
    if "mpc_body_constrained solve k a = Inr b" for k a b
    using body_constrained_Inr [OF that] by auto
  have two: "\<exists>J Uv c J' Uv' c'.
               solve (g_mpc s) (g_x s) True (g_cache s) = Inr (J, Uv, c)
             \<and> solve (g_mpc s) (g_x s') True c = Inr (J', Uv', c')"
    if "mpc_body_constrained solve t s = Inr s'"
      and "mpc_body_constrained solve (Suc t) s' = Inr s''"
    using one [OF that(1)] one [OF that(2)] by auto
  show ?thesis
    using loop [of s] loop [of "mpc_start (build_mpc n Pm todo) c0 junkX junkU junkJ x0 steps"]
      start one [of t s s'] two by auto
qed

theorem problem_built_once_witness:
  "mpc_body_constrained demo_solve 0 demo_env =
     Inr (demo_env\<lparr>g_x_init_value := Some mpc_x0, g_U_value := Some [[2], [5]],
        g_Jtraj := [Finite 3, Finite 7], g_Xtraj := [mpc_x0, [7, 7, 7, 7]], g_Utraj := [Finite 2, Finite 7],
        g_x := [1, 200098 / 100000000, - (1 / 1000), - 201078 / 100000000]\<rparr>)
   \<and> g_mpc (demo_env\<lparr>g_x_init_value := Some mpc_x0, g_U_value := Some [[2], [5]],
        g_Jtraj := [Finite 3, Finite 7], g_Xtraj := [mpc_x0, [7, 7, 7, 7]], g_Utraj := [Finite 2, Finite 7],
        g_x := [1, 200098 / 100000000, - (1 / 1000), - 201078 / 100000000]\<rparr>)
       = g_mpc demo_env
   \<and> g_mpc (final_env (mpc_loop_constrained demo_solve 2 demo_env))
       = build_mpc 2 (replicate 4 (replicate 4 0)) (\<lambda>k. [])
   \<and> g_mpc (final_env (mpc_loop_constrained infeasible_solve 2 demo_env))
       = build_mpc 2 (replicate 4 (replicate 4 0)) (\<lambda>k. [])
   \<and> (\<exists>J Uv c J' Uv' c'.
         demo_solve (g_mpc demo_env) mpc_x0 True () = Inr (J, Uv, c)
       \<and> demo_solve (g_mpc demo_env)
           [1, 200098 / 100000000, - (1 / 1000), - 201078 / 100000000] True c
         = Inr (J', Uv', c'))"
proof -
  let ?s' = "demo_env\<lparr>g_x_init_value := Some mpc_x0, g_U_value := Some [[2], [5]],
        g_Jtraj := [Finite 3, Finite 7], g_Xtraj := [mpc_x0, [7, 7, 7, 7]], g_Utraj := [Finite 2, Finite 7],
        g_x := [1, 200098 / 100000000, - (1 / 1000), - 201078 / 100000000]\<rparr>"
  note inst = problem_built_once [of demo_solve 2 demo_env _ _ _ _ _ _ _ _ 0 ?s']
  from inst [THEN conjunct2, THEN conjunct2, THEN conjunct1, THEN mp, OF demo_body_constrained]
  have 1: "g_mpc ?s' = g_mpc demo_env" by (elim exE conjE)
  have 2: "g_mpc (final_env (mpc_loop_constrained demo_solve 2 demo_env))
       = build_mpc 2 (replicate 4 (replicate 4 0)) (\<lambda>k. [])"
    using problem_built_once [of demo_solve 2 demo_env, THEN conjunct1]
    by (simp add: demo_env_def mpc_start_def)
  have 3: "g_mpc (final_env (mpc_loop_constrained infeasible_solve 2 demo_env))
       = build_mpc 2 (replicate 4 (replicate 4 0)) (\<lambda>k. [])"
    using problem_built_once [of infeasible_solve 2 demo_env, THEN conjunct1]
    by (simp add: demo_env_def mpc_start_def)
  from problem_built_once [where solve = demo_solve and s = demo_env and t = 0
      and s' = ?s', THEN conjunct2, THEN conjunct2, THEN conjunct2, THEN mp,
      OF conjI [OF demo_body_constrained demo_body_constrained_next]]
  have 4: "\<exists>J Uv c J' Uv' c'.
         demo_solve (g_mpc demo_env) mpc_x0 True () = Inr (J, Uv, c)
       \<and> demo_solve (g_mpc demo_env)
           [1, 200098 / 100000000, - (1 / 1000), - 201078 / 100000000] True c
         = Inr (J', Uv', c')"
    by (simp add: demo_env_fields)
  show ?thesis
    using demo_body_constrained 1 2 3 4 by (intro conjI)
qed

section \<open>A solve that fails\<close>








end
